theory Spec2Isabelle
  imports Complex_Main "HOL-Library.Word"
begin

section \<open>Geometry primitives (class Vector, Lerp)\<close>

text \<open>
  The source computes with IEEE doubles. The embedding computes with the reals: every
  \<open>double\<close> is a \<open>real\<close>, \<open>std::sqrt\<close> is \<open>sqrt\<close>, \<open>std::max\<close> is \<open>max\<close>,
  \<open>std::pow(x, 2)\<close> is \<open>x\<^sup>2\<close>. Rounding, overflow and underflow are outside the model.
  The one place where the source leaves the finite numbers by construction is the
  unguarded \<open>1 / Length()\<close> of \<open>Normalized\<close>: for the zero vector the source gets an infinite
  factor and NaN coordinates. HOL's \<open>1 / 0\<close> is \<open>0\<close>, so that case is written out as the
  error value \<open>NonFinite\<close>.

  The guard of \<open>Normalized\<close> is that of exact arithmetic: the length is 0 for the zero
  vector only. In doubles \<open>Length()\<close> is 0 as well for a vector whose squares all underflow
  (coordinates below about \<open>2^-537\<close>), and infinite when they overflow (above about
  \<open>2^511\<close>). Those vectors are not represented: what is proved of \<open>Normalized\<close> and \<open>Lerp\<close>
  speaks of the program at separations between these scales.
\<close>

datatype error = NonFinite

record Vector =
  m_X :: real
  m_Y :: real
  m_Z :: real

text \<open>The constructors \<open>Vector()\<close> and \<open>Vector(x, y, z)\<close>.\<close>

definition Vector0 :: Vector where
  "Vector0 = \<lparr>m_X = 0, m_Y = 0, m_Z = 0\<rparr>"

definition Vector3 :: "real \<Rightarrow> real \<Rightarrow> real \<Rightarrow> Vector" where
  "Vector3 x y z = \<lparr>m_X = x, m_Y = y, m_Z = z\<rparr>"

definition Length :: "Vector \<Rightarrow> real" where
  "Length v = sqrt (m_X v * m_X v + m_Y v * m_Y v + m_Z v * m_Z v)"

definition LengthSquared :: "Vector \<Rightarrow> real" where
  "LengthSquared v = m_X v * m_X v + m_Y v * m_Y v + m_Z v * m_Z v"

definition Distance :: "Vector \<Rightarrow> Vector \<Rightarrow> real" where
  "Distance u v =
     (let dx = m_X u - m_X v; dy = m_Y u - m_Y v; dz = m_Z u - m_Z v
      in sqrt (dx * dx + dy * dy + dz * dz))"

definition DistanceSquared :: "Vector \<Rightarrow> Vector \<Rightarrow> real" where
  "DistanceSquared u v =
     (let dx = m_X u - m_X v; dy = m_Y u - m_Y v; dz = m_Z u - m_Z v
      in dx * dx + dy * dy + dz * dz)"

definition Normalized :: "Vector \<Rightarrow> error + Vector" where
  "Normalized v =
     (if Length v = 0 then Inl NonFinite
      else (let m = 1 / Length v in Inr (Vector3 (m_X v * m) (m_Y v * m) (m_Z v * m))))"

text \<open>\<open>operator+\<close>, \<open>operator-\<close>, \<open>operator*\<close>; \<open>p += v\<close> is \<open>p = vplus p v\<close>.\<close>

definition vplus :: "Vector \<Rightarrow> Vector \<Rightarrow> Vector" where
  "vplus u v = Vector3 (m_X u + m_X v) (m_Y u + m_Y v) (m_Z u + m_Z v)"

definition vminus :: "Vector \<Rightarrow> Vector \<Rightarrow> Vector" where
  "vminus u v = Vector3 (m_X u - m_X v) (m_Y u - m_Y v) (m_Z u - m_Z v)"

definition vscale :: "Vector \<Rightarrow> real \<Rightarrow> Vector" where
  "vscale v a = Vector3 (m_X v * a) (m_Y v * a) (m_Z v * a)"

text \<open>\<open>Lerp(a, b, d) = a + (b - a).Normalized() * d\<close>.\<close>

definition Lerp :: "Vector \<Rightarrow> Vector \<Rightarrow> real \<Rightarrow> error + Vector" where
  "Lerp a b d =
     (case Normalized (vminus b a) of
        Inl e \<Rightarrow> Inl e
      | Inr n \<Rightarrow> Inr (vplus a (vscale n d)))"

section \<open>The model: parameters, bounding radius, spatial index, output stream\<close>

text \<open>
  \<open>IndexValue\<close> is \<open>std::pair<BoostPoint, int>\<close>; with \<open>D = 3\<close> a \<open>BoostPoint\<close> carries the
  same three doubles as a \<open>Vector\<close>, so \<open>ToBoost\<close> and \<open>Vector(BoostPoint)\<close> are the identity.
  The R-tree is kept as the list of its entries in insertion order.
\<close>

type_synonym IndexValue = "Vector \<times> int"

record Model =
  m_ParticleSpacing :: real
  m_AttractionDistance :: real
  m_MinMoveDistance :: real
  m_Stickiness :: real
  m_BoundingRadius :: real
  m_Index :: "IndexValue list"

text \<open>
  The output record. \<open>static_cast<float>\<close> of a double is the parameter \<open>f32\<close> of \<open>Add\<close>:
  the narrowing conversion is not computed here, only applied.
\<close>

record 'f Record =
  ParentID :: "32 word"
  X :: 'f
  Y :: 'f
  Z :: 'f

text \<open>The constructor \<open>Model()\<close> with the default parameters of the source.\<close>

definition DefaultParticleSpacing :: real where "DefaultParticleSpacing = 1"
definition DefaultAttractionDistance :: real where "DefaultAttractionDistance = 3"
definition DefaultMinMoveDistance :: real where "DefaultMinMoveDistance = 1"
definition DefaultStickiness :: real where "DefaultStickiness = 1"

definition Model0 :: Model where
  "Model0 = \<lparr>m_ParticleSpacing = DefaultParticleSpacing,
             m_AttractionDistance = DefaultAttractionDistance,
             m_MinMoveDistance = DefaultMinMoveDistance,
             m_Stickiness = DefaultStickiness,
             m_BoundingRadius = 0,
             m_Index = []\<rparr>"

text \<open>
  \<open>Add\<close>: the state is the model together with the records written to stdout so far.
  \<open>const int id = m_Index.size()\<close> narrows a \<open>size_t\<close> to a 32-bit \<open>int\<close>;
  \<open>static_cast<uint32_t>(parent)\<close> is the value modulo \<open>2^32\<close>.
\<close>

definition Add ::
  "(real \<Rightarrow> 'f) \<Rightarrow> Vector \<Rightarrow> int \<Rightarrow> Model \<times> 'f Record list \<Rightarrow> Model \<times> 'f Record list" where
  "Add f32 p parent st =
     (let M = fst st;
          id = sint (word_of_nat (length (m_Index M)) :: 32 word);
          M1 = M\<lparr>m_Index := m_Index M @ [(p, id)]\<rparr>;
          M2 = M1\<lparr>m_BoundingRadius :=
                    max (m_BoundingRadius M1) (Length p + m_AttractionDistance M1)\<rparr>;
          record = \<lparr>ParentID = word_of_int parent,
                    X = f32 (m_X p), Y = f32 (m_Y p), Z = f32 (m_Z p)\<rparr>
      in (M2, snd st @ [record]))"

section \<open>The commit phase of a round (the coordinator's loop in RunForever)\<close>

text \<open>
  The inner loop \<open>for (j = 0; j < i; j++)\<close> with its \<open>break\<close>: the value of \<open>ok\<close> when the
  loop is left, started at \<open>j\<close>.
\<close>

function commit_ok :: "real \<Rightarrow> (Vector \<times> int) list \<Rightarrow> nat \<Rightarrow> nat \<Rightarrow> bool" where
  "commit_ok threshold items i j =
     (if j < i then
        (let d2 = DistanceSquared (fst (items ! i)) (fst (items ! j))
         in if d2 < threshold then False else commit_ok threshold items i (j + 1))
      else True)"
  by pat_completeness auto
termination
  by (relation "measure (\<lambda>(threshold, items, i, j). i - j)") auto

declare commit_ok.simps [simp del]

text \<open>The outer loop \<open>for (i = 0; i < items.size(); i++)\<close>, started at \<open>i\<close>.\<close>

function commit_loop ::
  "(real \<Rightarrow> 'f) \<Rightarrow> real \<Rightarrow> (Vector \<times> int) list \<Rightarrow> nat \<Rightarrow>
     Model \<times> 'f Record list \<Rightarrow> Model \<times> 'f Record list" where
  "commit_loop f32 threshold items i st =
     (if i < length items then
        commit_loop f32 threshold items (i + 1)
          (if commit_ok threshold items i 0
           then Add f32 (fst (items ! i)) (snd (items ! i)) st
           else st)
      else st)"
  by pat_completeness auto
termination
  by (relation "measure (\<lambda>(f32, threshold, items, i, st). length items - i)") auto

declare commit_loop.simps [simp del]

text \<open>
  One commit phase: \<open>threshold\<close> is computed once, before the first round, from the
  attraction distance (which no round changes); the batch is cleared afterwards, so the
  result is the new model and output only.
\<close>

definition threshold_of :: "Model \<Rightarrow> real" where
  "threshold_of M = (m_AttractionDistance M * 5)\<^sup>2"

definition commit :: "(real \<Rightarrow> 'f) \<Rightarrow> (Vector \<times> int) list \<Rightarrow>
    Model \<times> 'f Record list \<Rightarrow> Model \<times> 'f Record list" where
  "commit f32 items st = commit_loop f32 (threshold_of (fst st)) items 0 st"

section \<open>Nearest-neighbour query\<close>

text \<open>
  Modelled from the spec: the Boost R-tree (\<open>boost::geometry::index::rtree\<close>) is a library
  and not part of the sources. Its \<open>query(nearest(point, 1), out)\<close> hands to the output
  iterator "the single closest previously-inserted point by straight-line distance", and
  nothing when the tree is empty. Among equally close entries the library's choice is not
  specified; the earliest inserted is taken here, and no theorem below depends on it.
\<close>

fun nearest_query :: "IndexValue list \<Rightarrow> Vector \<Rightarrow> IndexValue option" where
  "nearest_query [] q = None"
| "nearest_query (v # vs) q =
     (case nearest_query vs q of
        None \<Rightarrow> Some v
      | Some w \<Rightarrow> if Distance q (fst v) \<le> Distance q (fst w) then Some v else Some w)"

text \<open>
  \<open>Nearest\<close>: \<open>IndexValue result;\<close> is a default-constructed
  \<open>std::pair<BoostPoint, int>\<close>. What it holds is decided by the default constructors of
  the pair and of the Boost point, which are not part of the sources: it is the
  parameter \<open>dflt\<close>. The output iterator overwrites \<open>result\<close> with each value the query
  produces, so \<open>dflt\<close> is what comes back from an empty index, and from no other.
\<close>

definition Nearest :: "IndexValue \<Rightarrow> Model \<Rightarrow> Vector \<Rightarrow> IndexValue" where
  "Nearest dflt M point =
     (let result = dflt
      in case nearest_query (m_Index M) point of
           None \<Rightarrow> result
         | Some v \<Rightarrow> v)"

section \<open>Random numbers\<close>

text \<open>
  The thread-local generator is explicit state: the list of the canonical draws
  (numbers in \<open>[0, 1)\<close>) it will produce. \<open>Random(lo, hi)\<close> maps the next draw into
  \<open>[lo, hi)\<close>, as \<open>std::uniform_real_distribution\<close> does. A computation that needs a draw
  when the list is empty has not finished: its value is \<open>None\<close>.
\<close>

type_synonym rng = "real list"

definition Random :: "real \<Rightarrow> real \<Rightarrow> real \<Rightarrow> real" where
  "Random lo hi u = lo + (hi - lo) * u"

text \<open>
  \<open>RandomInUnitSphere\<close> with \<open>D = 3\<close>: rejection sampling, three draws a round (the
  order in which the three arguments draw is the compiler's; here it is left to right).
\<close>

fun RandomInUnitSphere :: "rng \<Rightarrow> (Vector \<times> rng) option" where
  "RandomInUnitSphere (a # b # c # g) =
     (let p = Vector3 (Random (-1) 1 a) (Random (-1) 1 b) (Random (-1) 1 c)
      in if LengthSquared p < 1 then Some (p, g) else RandomInUnitSphere g)"
| "RandomInUnitSphere g = None"

section \<open>The walk\<close>

definition RandomStartingPosition :: "Model \<Rightarrow> rng \<Rightarrow> (error + Vector \<times> rng) option" where
  "RandomStartingPosition M g =
     (let d = m_BoundingRadius M
      in case RandomInUnitSphere g of
           None \<Rightarrow> None
         | Some (u, g1) \<Rightarrow>
             (case Normalized u of
                Inl e \<Rightarrow> Some (Inl e)
              | Inr n \<Rightarrow> Some (Inr (vscale n d, g1))))"

definition ShouldReset :: "Model \<Rightarrow> Vector \<Rightarrow> bool" where
  "ShouldReset M p = (Length p > m_BoundingRadius M * 2)"

definition ShouldJoin :: "Model \<Rightarrow> Vector \<Rightarrow> IndexValue \<Rightarrow> rng \<Rightarrow> (bool \<times> rng) option" where
  "ShouldJoin M p parent g =
     (case g of
        [] \<Rightarrow> None
      | u # g1 \<Rightarrow> Some (Random 0 1 u \<le> m_Stickiness M, g1))"

definition PlaceParticle :: "Model \<Rightarrow> Vector \<Rightarrow> Vector \<Rightarrow> error + Vector" where
  "PlaceParticle M p parent = Lerp parent p (m_ParticleSpacing M)"

definition MotionVector :: "Model \<Rightarrow> Vector \<Rightarrow> rng \<Rightarrow> (Vector \<times> rng) option" where
  "MotionVector M p g = RandomInUnitSphere g"

text \<open>
  One pass through the body of \<open>while (true)\<close> in \<open>Walk\<close>, from position \<open>p\<close>: either the
  function returns, or the loop goes round with a new position (by \<open>continue\<close> or by
  reaching the end of the body).

  The join returns whatever \<open>PlaceParticle\<close> computed: when that divided by zero, the
  source returns the pair all the same, with NaN coordinates, so the position of the
  returned pair is an \<open>error + Vector\<close>. In the other branches a position that is not
  finite stays in the loop: the source goes on with NaN coordinates, for which every
  comparison is false, and does not return; the model stops there and reports
  \<open>Inl NonFinite\<close> for the pass.
\<close>

datatype walk_outcome = Return "(error + Vector) \<times> int" | Continue Vector

definition walk_body ::
  "IndexValue \<Rightarrow> Model \<Rightarrow> Vector \<Rightarrow> rng \<Rightarrow> (error + walk_outcome \<times> rng) option" where
  "walk_body dflt M p g =
     (let parent = Nearest dflt M p;
          parentPoint = fst parent;
          d = Distance p parentPoint
      in if d < m_AttractionDistance M then
           (case ShouldJoin M p parent g of
              None \<Rightarrow> None
            | Some (join, g1) \<Rightarrow>
                if \<not> join then
                  (case Lerp parentPoint p (m_AttractionDistance M + m_MinMoveDistance M) of
                     Inl e \<Rightarrow> Some (Inl e)
                   | Inr p1 \<Rightarrow> Some (Inr (Continue p1, g1)))
                else
                  (let p1 = PlaceParticle M p parentPoint
                   in Some (Inr (Return (p1, snd parent), g1))))
         else
           (let m = max (m_MinMoveDistance M) (d - m_AttractionDistance M)
            in case MotionVector M p g of
                 None \<Rightarrow> None
               | Some (v, g1) \<Rightarrow>
                   (case Normalized v of
                      Inl e \<Rightarrow> Some (Inl e)
                    | Inr n \<Rightarrow>
                        (let p1 = vplus p (vscale n m)
                         in if ShouldReset M p1 then
                              (case RandomStartingPosition M g1 of
                                 None \<Rightarrow> None
                               | Some (Inl e) \<Rightarrow> Some (Inl e)
                               | Some (Inr (p2, g2)) \<Rightarrow> Some (Inr (Continue p2, g2)))
                            else Some (Inr (Continue p1, g1))))))"

lemma RandomInUnitSphere_shorter:
  "RandomInUnitSphere g = Some (v, g1) \<Longrightarrow> length g1 < length g"
proof (induction g arbitrary: v g1 rule: RandomInUnitSphere.induct)
  case (1 a b c g)
  then show ?case
    by (fastforce simp: Let_def split: if_splits)
qed simp_all

lemma walk_body_shorter:
  assumes "walk_body dflt M p g = Some (Inr (out, g1))"
  shows "length g1 < length g"
  using assms
  by (auto simp: walk_body_def Let_def ShouldJoin_def MotionVector_def
        RandomStartingPosition_def
      split: if_splits option.splits sum.splits list.splits prod.splits
      dest!: RandomInUnitSphere_shorter)

text \<open>
  The loop of \<open>Walk\<close>. Every pass consumes at least one draw, so the loop over a finite
  list of draws ends: with the returned pair, with \<open>Inl NonFinite\<close> (the walker's position
  has left the finite numbers and the source walks on without returning), or with \<open>None\<close>
  when the draws run out before the particle has joined (the source would keep walking).
\<close>

function Walk_loop ::
  "IndexValue \<Rightarrow> Model \<Rightarrow> Vector \<Rightarrow> rng \<Rightarrow> (error + ((error + Vector) \<times> int) \<times> rng) option" where
  "Walk_loop dflt M p g =
     (case walk_body dflt M p g of
        None \<Rightarrow> None
      | Some (Inl e) \<Rightarrow> Some (Inl e)
      | Some (Inr (Return r, g1)) \<Rightarrow> Some (Inr (r, g1))
      | Some (Inr (Continue p1, g1)) \<Rightarrow> Walk_loop dflt M p1 g1)"
  by pat_completeness auto
termination
  by (relation "measure (\<lambda>(dflt, M, p, g). length g)") (auto dest: walk_body_shorter)

declare Walk_loop.simps [simp del]

definition Walk ::
  "IndexValue \<Rightarrow> Model \<Rightarrow> rng \<Rightarrow> (error + ((error + Vector) \<times> int) \<times> rng) option" where
  "Walk dflt M g =
     (case RandomStartingPosition M g of
        None \<Rightarrow> None
      | Some (Inl e) \<Rightarrow> Some (Inl e)
      | Some (Inr (p, g1)) \<Rightarrow> Walk_loop dflt M p g1)"

section \<open>The rounds of RunForever\<close>

text \<open>
  The worker threads and the coordinator as a transition system. A worker is at the
  first barrier, inside \<open>Walk()\<close>, holding the item \<open>Walk()\<close> returned (before
  \<open>mutex.lock()\<close>), or at the second barrier. The section between \<open>mutex.lock()\<close> and
  \<open>mutex.unlock()\<close> is one step. \<open>Walk()\<close> reads the model only, which no worker step
  changes, and draws from the worker's own generator: the item it returns is left open
  (a position with real coordinates; items with NaN coordinates are not represented).
  In \<open>items.size() >= batchSize\<close> the \<open>int\<close> is converted to the 64-bit \<open>size_t\<close>.
\<close>

datatype worker = AtBarrier1 | Walking | Holding "Vector \<times> int" | AtBarrier2

record 'f run_state =
  world :: "Model \<times> 'f Record list"
  items :: "(Vector \<times> int) list"
  workers :: "worker list"

definition batch_done :: "nat \<Rightarrow> int \<Rightarrow> bool" where
  "batch_done n batchSize = (int n \<ge> batchSize mod 2 ^ 64)"

definition all_at :: "worker \<Rightarrow> worker list \<Rightarrow> bool" where
  "all_at w ws = list_all (\<lambda>x. x = w) ws"

inductive RunForever_step :: "(real \<Rightarrow> 'f) \<Rightarrow> int \<Rightarrow> 'f run_state \<Rightarrow> 'f run_state \<Rightarrow> bool"
  for f32 :: "real \<Rightarrow> 'f" and batchSize :: int where
  barrier1:
    "all_at AtBarrier1 (workers s) \<Longrightarrow>
     RunForever_step f32 batchSize s (s\<lparr>workers := map (\<lambda>w. Walking) (workers s)\<rparr>)"
| walk:
    "i < length (workers s) \<Longrightarrow> workers s ! i = Walking \<Longrightarrow>
     RunForever_step f32 batchSize s (s\<lparr>workers := (workers s)[i := Holding item]\<rparr>)"
| push_back:
    "i < length (workers s) \<Longrightarrow> workers s ! i = Holding item \<Longrightarrow>
     RunForever_step f32 batchSize s
       (s\<lparr>items := items s @ [item],
          workers := (workers s)[i := (if batch_done (length (items s @ [item])) batchSize
                                       then AtBarrier2 else Walking)]\<rparr>)"
| barrier2:
    "all_at AtBarrier2 (workers s) \<Longrightarrow>
     RunForever_step f32 batchSize s
       (s\<lparr>world := commit f32 (items s) (world s),
          items := [],
          workers := map (\<lambda>w. AtBarrier1) (workers s)\<rparr>)"

text \<open>
  \<open>RunForever(numThreads, batchSize)\<close> starts one worker for each \<open>i\<close> with
  \<open>0 \<le> i < numThreads\<close>; they all wait at the first barrier, with an empty batch.
\<close>

definition RunForever_init :: "int \<Rightarrow> Model \<times> 'f Record list \<Rightarrow> 'f run_state" where
  "RunForever_init numThreads st =
     \<lparr>world = st, items = [], workers = replicate (nat numThreads) AtBarrier1\<rparr>"

definition RunForever_reachable ::
  "(real \<Rightarrow> 'f) \<Rightarrow> int \<Rightarrow> int \<Rightarrow> Model \<times> 'f Record list \<Rightarrow> 'f run_state \<Rightarrow> bool" where
  "RunForever_reachable f32 numThreads batchSize st s =
     (RunForever_step f32 batchSize)\<^sup>*\<^sup>* (RunForever_init numThreads st) s"

section \<open>Seeding (main)\<close>

text \<open>
  stdin is the list of the complete records \<open>fread\<close> delivers before it returns 0.
  \<open>Vector(r.X, r.Y, r.Z)\<close> widens each \<open>float\<close> to a \<open>double\<close> (the parameter \<open>f64\<close>), and
  the \<open>uint32_t\<close> parent becomes the \<open>int\<close> with the same 32 bits.
\<close>

fun seed_loop ::
  "(real \<Rightarrow> 'f) \<Rightarrow> ('f \<Rightarrow> real) \<Rightarrow> 'f Record list \<Rightarrow>
     (Model \<times> 'f Record list) \<times> int \<Rightarrow> (Model \<times> 'f Record list) \<times> int" where
  "seed_loop f32 f64 [] (st, count) = (st, count)"
| "seed_loop f32 f64 (r # rs) (st, count) =
     seed_loop f32 f64 rs
       (Add f32 (Vector3 (f64 (X r)) (f64 (Y r)) (f64 (Z r))) (sint (ParentID r)) st,
        count + 1)"

text \<open>\<open>main\<close> up to the call of \<open>RunForever\<close>; \<open>model.Add(Vector())\<close> has \<open>parent = -1\<close>.\<close>

definition main_seed :: "(real \<Rightarrow> 'f) \<Rightarrow> ('f \<Rightarrow> real) \<Rightarrow> 'f Record list \<Rightarrow> Model \<times> 'f Record list" where
  "main_seed f32 f64 stdin =
     (case seed_loop f32 f64 stdin ((Model0, []), 0) of
        (st, count) \<Rightarrow> if count = 0 then Add f32 Vector0 (- 1) st else st)"

definition NumThreads :: int where "NumThreads = 16"
definition BatchSize :: int where "BatchSize = 128"

section \<open>Notions used to state the properties\<close>

text \<open>
  The separations at which the squared length of the difference of two double vectors
  neither underflows to zero nor overflows. What is claimed of \<open>PlaceParticle\<close> for all
  pairs of points is stated for these.
\<close>

definition ordinary_separation :: "Vector \<Rightarrow> Vector \<Rightarrow> bool" where
  "ordinary_separation u v = (1 / 2 ^ 500 \<le> Distance u v \<and> Distance u v \<le> 2 ^ 500)"

text \<open>A sequence of acceptances: \<open>Add\<close> called for each (position, parent) in turn.\<close>

definition Add_seq ::
  "(real \<Rightarrow> 'f) \<Rightarrow> (Vector \<times> int) list \<Rightarrow> Model \<times> 'f Record list \<Rightarrow> Model \<times> 'f Record list" where
  "Add_seq f32 ps st = foldl (\<lambda>s x. Add f32 (fst x) (snd x) s) st ps"





text \<open>
  The run with an empty stdin: the model has the single seed at the origin. The draws
  \<open>3/4, 1/2, 1/2\<close> sample the vector \<open>(1/2, 0, 0)\<close> and \<open>1/4, 1/2, 1/2\<close> the vector
  \<open>(-1/2, 0, 0)\<close>; with \<open>draws_join\<close> the walk starts at \<open>(3, 0, 0)\<close>, moves to
  \<open>(2, 0, 0)\<close> and joins; \<open>draws_join_left\<close> give the mirror image of that walk.
  \<open>model_half\<close> is that model after \<open>SetStickiness(0.5)\<close>, \<open>model_land\<close> after
  \<open>SetMinMoveDistance(3)\<close>, and \<open>model_push\<close> after \<open>SetMinMoveDistance(4)\<close> and
  \<open>SetStickiness(0.5)\<close> (the setters change no other field, and the seed's \<open>Add\<close> reads
  the attraction distance only). With \<open>draws_push\<close> the walk starts at \<open>(3, 0, 0)\<close>, moves
  to \<open>(-1, 0, 0)\<close> and is rejected.
\<close>

definition world1 :: "Model \<times> real Record list" where
  "world1 = main_seed (\<lambda>x. x) (\<lambda>x. x) []"

definition draws_join :: rng where
  "draws_join = [3/4, 1/2, 1/2, 1/4, 1/2, 1/2, 0]"

definition draws_join_left :: rng where
  "draws_join_left = [1/4, 1/2, 1/2, 3/4, 1/2, 1/2, 0]"

definition model_land :: Model where
  "model_land = (fst world1)\<lparr>m_MinMoveDistance := 3\<rparr>"

definition model_push :: Model where
  "model_push = (fst world1)\<lparr>m_MinMoveDistance := 4, m_Stickiness := 1/2\<rparr>"

definition draws_push :: rng where
  "draws_push = [3/4, 1/2, 1/2, 1/4, 1/2, 1/2, 3/4]"

definition model_half :: Model where
  "model_half = (fst world1)\<lparr>m_Stickiness := 1/2\<rparr>"

text \<open>
  For the rounds: the number of workers waiting at the second barrier, and the invariant
  that ties it to the size of the batch. \<open>round_end\<close> is the state of a run with two
  workers and \<open>batchSize = 1\<close> in which both workers have appended their item.
\<close>

definition at_barrier2 :: "worker list \<Rightarrow> nat" where
  "at_barrier2 ws = length (filter (\<lambda>w. w = AtBarrier2) ws)"

definition round_inv :: "int \<Rightarrow> int \<Rightarrow> 'f run_state \<Rightarrow> bool" where
  "round_inv numThreads batchSize s =
     (length (workers s) = nat numThreads
      \<and> (if at_barrier2 (workers s) = 0 then int (length (items s)) < batchSize
         else int (length (items s)) = batchSize + int (at_barrier2 (workers s)) - 1))"

definition item_a :: "Vector \<times> int" where "item_a = (Vector3 1 0 0, 0)"
definition item_b :: "Vector \<times> int" where "item_b = (Vector3 (- 1) 0 0, 0)"

definition round_end :: "real run_state" where
  "round_end = \<lparr>world = world1, items = [item_a, item_b], workers = [AtBarrier2, AtBarrier2]\<rparr>"

section \<open>Bounding radius (Add)\<close>

lemma Add_radius:
  "m_BoundingRadius (fst (Add f32 p parent st)) =
     max (m_BoundingRadius (fst st)) (Length p + m_AttractionDistance (fst st))"
  by (simp add: Add_def Let_def)


lemma Add_parameters:
  "m_AttractionDistance (fst (Add f32 p parent st)) = m_AttractionDistance (fst st)"
  by (simp add: Add_def Let_def)

text \<open>
  C4. Every call of \<open>Add\<close> sets the bounding radius to the maximum of the current radius
  and the particle's distance from the origin plus the attraction distance; so for any
  sequence of acceptances the radius after one more insertion is at least the radius
  before it.
\<close>

theorem Add_bounding_radius_monotone:
  "m_BoundingRadius (fst (Add f32 p parent st)) =
     max (m_BoundingRadius (fst st)) (Length p + m_AttractionDistance (fst st))
   \<and> m_BoundingRadius (fst (Add_seq f32 ps st))
       \<le> m_BoundingRadius (fst (Add_seq f32 (ps @ [(p, parent)]) st))"
  by (simp add: Add_seq_def Add_radius)

text \<open>
  The bounding radius starts at 0 and only grows: it is never negative in a run of the
  program, whatever the seeds and the batches.
\<close>

lemma Add_radius_nonneg:
  "0 \<le> m_BoundingRadius (fst st) \<Longrightarrow> 0 \<le> m_BoundingRadius (fst (Add f32 p parent st))"
  by (simp add: Add_radius le_max_iff_disj)

lemma seed_loop_radius_nonneg:
  "0 \<le> m_BoundingRadius (fst st) \<Longrightarrow>
     0 \<le> m_BoundingRadius (fst (fst (seed_loop f32 f64 rs (st, c))))"
  by (induction rs arbitrary: st c) (simp_all add: Add_radius_nonneg)

lemma main_seed_radius_nonneg: "0 \<le> m_BoundingRadius (fst (main_seed f32 f64 stdin))"
proof -
  have "0 \<le> m_BoundingRadius (fst (fst (seed_loop f32 f64 stdin ((Model0, []), 0))))"
    by (rule seed_loop_radius_nonneg) (simp add: Model0_def)
  then show ?thesis
    by (auto simp: main_seed_def Add_radius_nonneg split: prod.splits)
qed

lemma commit_loop_radius_nonneg:
  "0 \<le> m_BoundingRadius (fst st) \<Longrightarrow>
     0 \<le> m_BoundingRadius (fst (commit_loop f32 t its i st))"
proof (induction f32 t its i st rule: commit_loop.induct)
  case (1 f32 t its i st)
  show ?case
  proof (cases "i < length its")
    case False
    then show ?thesis using "1.prems" by (simp add: commit_loop.simps [of f32 t its i st])
  next
    case True
    then show ?thesis
      using "1.IH" [OF True] "1.prems"
      by (simp add: commit_loop.simps [of f32 t its i st] Add_radius_nonneg)
  qed
qed

lemma RunForever_radius_nonneg:
  assumes "RunForever_reachable f32 numThreads batchSize (main_seed f32 f64 stdin) s"
  shows "0 \<le> m_BoundingRadius (fst (world s))"
  using assms unfolding RunForever_reachable_def
proof (induction rule: rtranclp_induct)
  case base
  show ?case by (simp add: RunForever_init_def main_seed_radius_nonneg)
next
  case (step y z)
  from step.hyps(2) step.IH show ?case
    by cases (simp_all add: commit_def commit_loop_radius_nonneg)
qed

section \<open>The commit phase\<close>



text \<open>
  No commit changes the attraction distance, so the threshold computed before the first
  round is the threshold of every round.
\<close>

lemma commit_loop_parameters:
  "m_AttractionDistance (fst (commit_loop f32 t its i st)) = m_AttractionDistance (fst st)"
proof (induction f32 t its i st rule: commit_loop.induct)
  case (1 f32 t its i st)
  show ?case
  proof (cases "i < length its")
    case False
    then show ?thesis by (simp add: commit_loop.simps [of f32 t its i st])
  next
    case True
    then show ?thesis
      using "1.IH" [OF True]
      by (simp add: commit_loop.simps [of f32 t its i st] Add_parameters)
  qed
qed

lemma commit_threshold: "threshold_of (fst (commit f32 its st)) = threshold_of (fst st)"
  by (simp add: threshold_of_def commit_def commit_loop_parameters)










section \<open>Facts of the geometry\<close>

lemma sum_squares3_zero_iff:
  "(a::real) * a + b * b + c * c = 0 \<longleftrightarrow> a = 0 \<and> b = 0 \<and> c = 0"
proof
  assume h: "a * a + b * b + c * c = 0"
  have "0 \<le> a * a" "0 \<le> b * b" "0 \<le> c * c" by simp_all
  with h have "a * a = 0" "b * b = 0" "c * c = 0" by linarith+
  then show "a = 0 \<and> b = 0 \<and> c = 0" by simp
qed simp

lemma sum_squares3_nonneg: "0 \<le> (a::real) * a + b * b + c * c"
  by (simp add: add_nonneg_nonneg)

lemma Length_nonneg: "0 \<le> Length v"
  by (simp add: Length_def sum_squares3_nonneg)

lemma Length_zero_iff: "Length v = 0 \<longleftrightarrow> m_X v = 0 \<and> m_Y v = 0 \<and> m_Z v = 0"
  by (simp add: Length_def sum_squares3_zero_iff)

lemma Length_vscale: "Length (vscale v a) = Length v * \<bar>a\<bar>"
proof -
  have "m_X v * a * (m_X v * a) + m_Y v * a * (m_Y v * a) + m_Z v * a * (m_Z v * a)
        = (m_X v * m_X v + m_Y v * m_Y v + m_Z v * m_Z v) * (a * a)"
    by (simp add: algebra_simps)
  then show ?thesis
    by (simp add: Length_def vscale_def Vector3_def real_sqrt_mult)
qed

lemma Normalized_vscale: "Normalized v = Inr n \<Longrightarrow> n = vscale v (1 / Length v)"
  by (auto simp: Normalized_def vscale_def Let_def split: if_splits)

lemma Normalized_Length: 
  assumes "Normalized v = Inr n" shows "Length n = 1"
proof -
  have nz: "Length v \<noteq> 0" using assms by (auto simp: Normalized_def split: if_splits)
  have "Length n = Length v * \<bar>1 / Length v\<bar>"
    using Normalized_vscale [OF assms] by (simp only: Length_vscale)
  also have "\<dots> = 1" using nz Length_nonneg [of v] by simp
  finally show ?thesis .
qed

lemma Normalized_error_iff: "Normalized v = Inl e \<longleftrightarrow> Length v = 0"
  by (cases e) (simp add: Normalized_def Let_def)

lemma Distance_vminus: "Distance u v = Length (vminus u v)"
  by (simp add: Distance_def Length_def vminus_def Vector3_def Let_def)

lemma Distance_commute: "Distance u v = Distance v u"
proof -
  have "\<And>a b::real. (a - b) * (a - b) = (b - a) * (b - a)" by (simp add: algebra_simps)
  then show ?thesis by (simp add: Distance_def Let_def)
qed

lemma Distance_zero_iff: "Distance u v = 0 \<longleftrightarrow> u = v"
  by (auto simp: Distance_vminus Length_zero_iff vminus_def Vector3_def)

lemma Distance_vplus: "Distance (vplus a w) a = Length w"
  by (simp add: Distance_def Length_def vplus_def Vector3_def Let_def)

lemma Length_triangle: "Length (vplus u v) \<le> Length u + Length v"
proof -
  let ?a = "sqrt ((m_X u)\<^sup>2 + (m_Y u)\<^sup>2)"
  let ?b = "sqrt ((m_X v)\<^sup>2 + (m_Y v)\<^sup>2)"
  let ?s = "sqrt ((m_X u + m_X v)\<^sup>2 + (m_Y u + m_Y v)\<^sup>2)"
  have s: "?s \<le> ?a + ?b" by (rule real_sqrt_sum_squares_triangle_ineq)
  have s0: "0 \<le> ?s" by simp
  have "Length (vplus u v) = sqrt (?s\<^sup>2 + (m_Z u + m_Z v)\<^sup>2)"
    by (simp add: Length_def vplus_def Vector3_def power2_eq_square)
  also have "\<dots> \<le> sqrt ((?a + ?b)\<^sup>2 + (m_Z u + m_Z v)\<^sup>2)"
    using s s0 by (intro real_sqrt_le_mono add_right_mono power_mono) 
  also have "\<dots> \<le> sqrt (?a\<^sup>2 + (m_Z u)\<^sup>2) + sqrt (?b\<^sup>2 + (m_Z v)\<^sup>2)"
    by (rule real_sqrt_sum_squares_triangle_ineq)
  also have "\<dots> = Length u + Length v"
    by (simp add: Length_def power2_eq_square)
  finally show ?thesis .
qed

lemma vminus_vplus_split: "vminus u w = vplus (vminus u v) (vminus v w)"
  by (simp add: vminus_def vplus_def Vector3_def)

lemma Distance_triangle: "Distance u w \<le> Distance u v + Distance v w"
  unfolding Distance_vminus vminus_vplus_split [of u w v] by (rule Length_triangle)

lemma Lerp_error_iff: "Lerp a b d = Inl e \<longleftrightarrow> a = b"
proof -
  have "Lerp a b d = Inl e \<longleftrightarrow> Normalized (vminus b a) = Inl e"
    by (simp add: Lerp_def split: sum.splits)
  also have "\<dots> \<longleftrightarrow> Distance b a = 0"
    by (simp add: Normalized_error_iff Distance_vminus)
  also have "\<dots> \<longleftrightarrow> a = b" by (auto simp: Distance_zero_iff)
  finally show ?thesis .
qed

lemma Lerp_value:
  assumes "a \<noteq> b"
  shows "Lerp a b d = Inr (vplus a (vscale (vminus b a) (d / Distance b a)))"
proof -
  have nz: "Length (vminus b a) \<noteq> 0"
    using assms Distance_zero_iff [of b a] by (auto simp: Distance_vminus)
  then show ?thesis
    by (simp add: Lerp_def Normalized_def Let_def vscale_def Vector3_def Distance_vminus)
qed

lemma Lerp_Distance:
  assumes "Lerp a b d = Inr r"
  shows "Distance r a = \<bar>d\<bar>"
proof -
  obtain n where n: "Normalized (vminus b a) = Inr n" and r: "r = vplus a (vscale n d)"
    using assms by (auto simp: Lerp_def split: sum.splits)
  show ?thesis
    by (simp add: r Distance_vplus Length_vscale Normalized_Length [OF n])
qed

section \<open>Nearest and the result of Walk\<close>

lemma nearest_query_None: "nearest_query idx q = None \<longleftrightarrow> idx = []"
  by (induction idx) (auto split: option.splits)

lemma nearest_query_mem: "nearest_query idx q = Some v \<Longrightarrow> v \<in> set idx"
  by (induction idx arbitrary: v) (auto split: option.splits if_splits)

lemma Nearest_empty: "m_Index M = [] \<Longrightarrow> Nearest dflt M q = dflt"
  by (simp add: Nearest_def)

lemma Nearest_mem: "m_Index M \<noteq> [] \<Longrightarrow> Nearest dflt M q \<in> set (m_Index M)"
  by (cases "nearest_query (m_Index M) q")
     (auto simp: Nearest_def nearest_query_None dest: nearest_query_mem)

lemma ordinary_separation_distinct: "ordinary_separation Q P \<Longrightarrow> Q \<noteq> P"
proof
  assume o: "ordinary_separation Q P" and e: "Q = P"
  have "Distance P P = 0" by (simp add: Distance_zero_iff)
  with o e show False by (simp add: ordinary_separation_def)
qed

lemma PlaceParticle_value:
  assumes "Q \<noteq> P"
  shows "PlaceParticle M Q P =
           Inr (vplus P (vscale (vminus Q P) (m_ParticleSpacing M / Distance Q P)))"
  using assms Lerp_value [of P Q] by (simp add: PlaceParticle_def)

lemma PlaceParticle_Distance:
  assumes "PlaceParticle M Q P = Inr r" "0 \<le> m_ParticleSpacing M"
  shows "Distance r P = m_ParticleSpacing M"
  using assms Lerp_Distance [of P Q "m_ParticleSpacing M" r] by (simp add: PlaceParticle_def)

lemma PlaceParticle_coincident: "PlaceParticle M P P = Inl NonFinite"
proof -
  obtain e where "PlaceParticle M P P = Inl e"
    using Lerp_error_iff [of P P "m_ParticleSpacing M"] by (simp add: PlaceParticle_def)
  then show ?thesis by (cases e) simp
qed

lemma walk_body_Return:
  assumes "walk_body dflt M p g = Some (Inr (Return (r, pid), g1))"
  shows "Distance p (fst (Nearest dflt M p)) < m_AttractionDistance M
         \<and> r = PlaceParticle M p (fst (Nearest dflt M p)) \<and> snd (Nearest dflt M p) = pid"
  using assms
  by (auto simp: walk_body_def Let_def split: if_splits option.splits sum.splits prod.splits)

lemma Walk_loop_Return:
  "Walk_loop dflt M p g = Some (Inr ((r, pid), g')) \<Longrightarrow>
     \<exists>q. Distance q (fst (Nearest dflt M q)) < m_AttractionDistance M
         \<and> r = PlaceParticle M q (fst (Nearest dflt M q)) \<and> snd (Nearest dflt M q) = pid"
proof (induction dflt M p g rule: Walk_loop.induct)
  case (1 dflt M p g)
  from "1.prems" show ?case
  proof (cases "walk_body dflt M p g")
    case None
    with "1.prems" show ?thesis by (simp add: Walk_loop.simps [of dflt M p g])
  next
    case (Some res)
    show ?thesis
    proof (cases res)
      case (Inl e)
      with Some "1.prems" show ?thesis by (simp add: Walk_loop.simps [of dflt M p g])
    next
      case (Inr og)
      obtain out g1 where og: "og = (out, g1)" by (cases og)
      show ?thesis
      proof (cases out)
        case (Return r')
        with Some Inr og "1.prems" have "r' = (r, pid)" "g1 = g'"
          by (simp_all add: Walk_loop.simps [of dflt M p g])
        with Some Inr og Return
        have "walk_body dflt M p g = Some (Inr (Return (r, pid), g'))"
          by simp
        from walk_body_Return [OF this] show ?thesis by blast
      next
        case (Continue p1)
        with Some Inr og "1.prems"
        have "Walk_loop dflt M p1 g1 = Some (Inr ((r, pid), g'))"
          by (simp add: Walk_loop.simps [of dflt M p g])
        with "1.IH" Some Inr og Continue show ?thesis by simp
      qed
    qed
  qed
qed

lemma Walk_Return:
  assumes "Walk dflt M g = Some (Inr ((r, pid), g'))"
  shows "\<exists>q. Distance q (fst (Nearest dflt M q)) < m_AttractionDistance M
         \<and> r = PlaceParticle M q (fst (Nearest dflt M q)) \<and> snd (Nearest dflt M q) = pid"
  using assms
  by (auto simp: Walk_def split: option.splits sum.splits prod.splits dest: Walk_loop_Return)

text \<open>
  C3 (as the code has it). With a particle spacing that is not negative: for every
  parent position \<open>P\<close> and every candidate \<open>Q\<close> at an ordinary separation from \<open>P\<close>,
  \<open>PlaceParticle(Q, P)\<close> is the point \<open>P + t (Q - P)\<close> with
  \<open>t = particleSpacing / |Q - P| \<ge> 0\<close> (on the line through \<open>P\<close> and \<open>Q\<close>, on the side of
  \<open>Q\<close>), at distance exactly \<open>particleSpacing\<close> from \<open>P\<close>. \<open>Walk\<close> returns the pair of
  \<open>PlaceParticle(q, pp)\<close> and the parent's id, for a position \<open>q\<close> of the walker within the
  attraction distance of the particle \<open>pp\<close> that \<open>Nearest\<close> reported for that id (an entry
  of the index when the index is not empty): when \<open>q\<close> is at an ordinary separation from
  \<open>pp\<close> the returned position is at distance \<open>particleSpacing\<close> from \<open>pp\<close>, and when \<open>q\<close>
  coincides with \<open>pp\<close> the returned position is not finite.
\<close>

theorem PlaceParticle_spacing:
  assumes "0 \<le> m_ParticleSpacing M"
  shows "(ordinary_separation Q P \<longrightarrow>
           PlaceParticle M Q P =
             Inr (vplus P (vscale (vminus Q P) (m_ParticleSpacing M / Distance Q P)))
           \<and> 0 \<le> m_ParticleSpacing M / Distance Q P
           \<and> (\<forall>r. PlaceParticle M Q P = Inr r \<longrightarrow> Distance r P = m_ParticleSpacing M))
       \<and> (Walk dflt M g = Some (Inr ((r, pid), g')) \<longrightarrow>
           (\<exists>q pp. Nearest dflt M q = (pp, pid)
                  \<and> (m_Index M \<noteq> [] \<longrightarrow> (pp, pid) \<in> set (m_Index M))
                  \<and> Distance q pp < m_AttractionDistance M
                  \<and> r = PlaceParticle M q pp
                  \<and> (q = pp \<longrightarrow> r = Inl NonFinite)
                  \<and> (ordinary_separation q pp \<longrightarrow>
                       (\<exists>pos. r = Inr pos \<and> Distance pos pp = m_ParticleSpacing M))))"
proof (intro conjI impI)
  assume "ordinary_separation Q P"
  then have "Q \<noteq> P" by (rule ordinary_separation_distinct)
  then show "PlaceParticle M Q P =
             Inr (vplus P (vscale (vminus Q P) (m_ParticleSpacing M / Distance Q P)))"
    by (rule PlaceParticle_value)
  show "0 \<le> m_ParticleSpacing M / Distance Q P"
    using assms by (simp add: Distance_vminus Length_nonneg)
  show "\<forall>r. PlaceParticle M Q P = Inr r \<longrightarrow> Distance r P = m_ParticleSpacing M"
    using assms PlaceParticle_Distance by blast
next
  assume "Walk dflt M g = Some (Inr ((r, pid), g'))"
  from Walk_Return [OF this] obtain q where
    q: "Distance q (fst (Nearest dflt M q)) < m_AttractionDistance M"
       "r = PlaceParticle M q (fst (Nearest dflt M q))" "snd (Nearest dflt M q) = pid"
    by blast
  let ?pp = "fst (Nearest dflt M q)"
  have 1: "Nearest dflt M q = (?pp, pid)" using q(3) by (cases "Nearest dflt M q") simp
  have 2: "m_Index M \<noteq> [] \<longrightarrow> (?pp, pid) \<in> set (m_Index M)"
    using Nearest_mem [of M dflt q] 1 by simp
  have 3: "q = ?pp \<longrightarrow> r = Inl NonFinite"
    using q(2) PlaceParticle_coincident [of M ?pp] by auto
  have 4: "ordinary_separation q ?pp \<longrightarrow>
             (\<exists>pos. r = Inr pos \<and> Distance pos ?pp = m_ParticleSpacing M)"
  proof
    assume "ordinary_separation q ?pp"
    then have "q \<noteq> ?pp" by (rule ordinary_separation_distinct)
    then have v: "r = Inr (vplus ?pp (vscale (vminus q ?pp) (m_ParticleSpacing M / Distance q ?pp)))"
      using q(2) PlaceParticle_value [of q ?pp M] by simp
    then have "PlaceParticle M q ?pp = Inr (vplus ?pp (vscale (vminus q ?pp) (m_ParticleSpacing M / Distance q ?pp)))"
      using q(2) by simp
    from PlaceParticle_Distance [OF this assms] v
    show "\<exists>pos. r = Inr pos \<and> Distance pos ?pp = m_ParticleSpacing M" by blast
  qed
  from 1 2 3 4 q(1,2) show "\<exists>q pp. Nearest dflt M q = (pp, pid)
                  \<and> (m_Index M \<noteq> [] \<longrightarrow> (pp, pid) \<in> set (m_Index M))
                  \<and> Distance q pp < m_AttractionDistance M
                  \<and> r = PlaceParticle M q pp
                  \<and> (q = pp \<longrightarrow> r = Inl NonFinite)
                  \<and> (ordinary_separation q pp \<longrightarrow>
                       (\<exists>pos. r = Inr pos \<and> Distance pos pp = m_ParticleSpacing M))"
    by blast
qed

section \<open>The passes of the walk\<close>

lemma Vector0_iff: "v = Vector0 \<longleftrightarrow> m_X v = 0 \<and> m_Y v = 0 \<and> m_Z v = 0"
  by (cases v) (simp add: Vector0_def)

lemma Normalized_NonFinite_iff: "Normalized v = Inl NonFinite \<longleftrightarrow> v = Vector0"
  by (simp add: Normalized_error_iff Length_zero_iff Vector0_iff)

text \<open>
  C6. When the walker is within the attraction distance of the nearest particle, at a
  position distinct from it, and the join decision rejects (the draw exceeds the
  stickiness), then, the minimum move distance not being negative, the pass ends with the
  walker at \<open>pp + t (p - pp)\<close>, \<open>t \<ge> 0\<close>: on the ray from the parent \<open>pp\<close> through its
  position \<open>p\<close>, at distance exactly \<open>attractionDistance + minMoveDistance\<close> from the
  parent; and the loop goes on from there.
\<close>

theorem Walk_push_away:
  assumes "Distance p (fst (Nearest dflt M p)) < m_AttractionDistance M"
    and "p \<noteq> fst (Nearest dflt M p)"
    and "\<not> Random 0 1 u \<le> m_Stickiness M"
    and "0 \<le> m_MinMoveDistance M"
  shows "(let pp = fst (Nearest dflt M p);
              D = m_AttractionDistance M + m_MinMoveDistance M;
              p1 = vplus pp (vscale (vminus p pp) (D / Distance p pp))
          in ShouldJoin M p (Nearest dflt M p) (u # g) = Some (False, g)
           \<and> walk_body dflt M p (u # g) = Some (Inr (Continue p1, g))
           \<and> Walk_loop dflt M p (u # g) = Walk_loop dflt M p1 g
           \<and> 0 \<le> D / Distance p pp
           \<and> Distance p1 pp = D)"
proof -
  let ?pp = "fst (Nearest dflt M p)"
  let ?D = "m_AttractionDistance M + m_MinMoveDistance M"
  let ?p1 = "vplus ?pp (vscale (vminus p ?pp) (?D / Distance p ?pp))"
  have d0: "0 \<le> Distance p ?pp" by (simp add: Distance_vminus Length_nonneg)
  then have D0: "0 \<le> ?D" using assms(1,4) by simp
  have L: "Lerp ?pp p ?D = Inr ?p1"
    using assms(2) Lerp_value [of ?pp p ?D] by simp
  have j: "ShouldJoin M p (Nearest dflt M p) (u # g) = Some (False, g)"
    using assms(3) by (simp add: ShouldJoin_def)
  have b: "walk_body dflt M p (u # g) = Some (Inr (Continue ?p1, g))"
    using assms(1) j L by (simp add: walk_body_def Let_def)
  have w: "Walk_loop dflt M p (u # g) = Walk_loop dflt M ?p1 g"
    using b by (simp add: Walk_loop.simps [of dflt M p "u # g"])
  have dist: "Distance ?p1 ?pp = ?D"
    using Lerp_Distance [OF L] D0 by simp
  show ?thesis
    using j b w d0 D0 dist by (simp add: Let_def)
qed

lemma Distance_moved:
  assumes "Length n = 1" "0 \<le> m"
  shows "Distance (vplus p (vscale n m)) p = m"
  using assms by (simp add: Distance_vplus Length_vscale)

lemma moved_outside_shell:
  assumes "Length n = 1" "0 \<le> m"
  shows "Distance p q - m \<le> Distance (vplus p (vscale n m)) q"
proof -
  have "Distance p q \<le> Distance p (vplus p (vscale n m)) + Distance (vplus p (vscale n m)) q"
    by (rule Distance_triangle)
  also have "Distance p (vplus p (vscale n m)) = m"
    using Distance_moved [OF assms] by (simp add: Distance_commute)
  finally show ?thesis by simp
qed

text \<open>
  C7. When the distance \<open>d\<close> to the nearest particle is not below the attraction
  distance, and the sampled motion vector \<open>v\<close> can be normalised to \<open>n\<close> (it is not the zero
  vector, for which \<open>Normalized\<close> is \<open>NonFinite\<close>): \<open>n\<close> is a unit vector, the walker
  moves to \<open>p + m n\<close> with \<open>m = max(minMoveDistance, d - attractionDistance)\<close>, which is at
  distance exactly \<open>m\<close> from \<open>p\<close>, and the pass continues from there unless it resets.
  When \<open>d - attractionDistance \<ge> minMoveDistance\<close>, the moved position is at distance at
  least \<open>attractionDistance\<close> from the nearest particle, whatever the unit direction.
\<close>

theorem Walk_random_move:
  assumes "\<not> Distance p (fst (Nearest dflt M p)) < m_AttractionDistance M"
    and "MotionVector M p g = Some (v, g1)"
    and "Normalized v = Inr n"
  shows "(let pp = fst (Nearest dflt M p);
              d = Distance p pp;
              m = max (m_MinMoveDistance M) (d - m_AttractionDistance M);
              p1 = vplus p (vscale n m)
          in Length n = 1
           \<and> Distance p1 p = m
           \<and> (\<not> ShouldReset M p1 \<longrightarrow> walk_body dflt M p g = Some (Inr (Continue p1, g1)))
           \<and> (\<forall>n'. Length n' = 1 \<and> m_MinMoveDistance M \<le> d - m_AttractionDistance M \<longrightarrow>
                 m_AttractionDistance M \<le> Distance (vplus p (vscale n' m)) pp))"
proof -
  let ?pp = "fst (Nearest dflt M p)"
  let ?d = "Distance p ?pp"
  let ?m = "max (m_MinMoveDistance M) (?d - m_AttractionDistance M)"
  let ?p1 = "vplus p (vscale n ?m)"
  have n1: "Length n = 1" by (rule Normalized_Length [OF assms(3)])
  have m0: "0 \<le> ?m" using assms(1) by simp
  have mv: "Distance ?p1 p = ?m" by (rule Distance_moved [OF n1 m0])
  have b: "\<not> ShouldReset M ?p1 \<longrightarrow> walk_body dflt M p g = Some (Inr (Continue ?p1, g1))"
    using assms by (simp add: walk_body_def Let_def)
  have shell: "\<forall>n'. Length n' = 1 \<and> m_MinMoveDistance M \<le> ?d - m_AttractionDistance M \<longrightarrow>
                 m_AttractionDistance M \<le> Distance (vplus p (vscale n' ?m)) ?pp"
  proof (intro allI impI)
    fix n' assume h: "Length n' = 1 \<and> m_MinMoveDistance M \<le> ?d - m_AttractionDistance M"
    then have "?m = ?d - m_AttractionDistance M" by simp
    moreover have "?d - ?m \<le> Distance (vplus p (vscale n' ?m)) ?pp"
      using h m0 by (intro moved_outside_shell) simp_all
    ultimately show "m_AttractionDistance M \<le> Distance (vplus p (vscale n' ?m)) ?pp"
      by simp
  qed
  show ?thesis
    using n1 mv b shell by (simp add: Let_def)
qed

text \<open>
  C5 (as the code has it). \<open>ShouldReset\<close> is tested on the position reached by a random
  move, and only there; it holds exactly when that position is at distance strictly
  greater than twice the bounding radius from the origin. In that case (the bounding
  radius not being negative, as in every state of a run, and the two sampled vectors
  not being the zero vector) the pass ends with the walker at \<open>RandomStartingPosition()\<close>,
  a point at distance exactly the bounding radius from the origin, and the next pass of
  the loop, which starts with the query of the index, runs from that point. The
  position reached by the push after a rejected join is not tested: whatever its
  distance from the origin, the pass ends with it.
\<close>

theorem Walk_reset:
  assumes "0 \<le> m_BoundingRadius M"
    and "\<not> Distance p (fst (Nearest dflt M p)) < m_AttractionDistance M"
    and "MotionVector M p g = Some (v, g1)"
    and "Normalized v = Inr n"
    and "RandomInUnitSphere g1 = Some (w, g2)"
    and "Normalized w = Inr nw"
  shows "(let pp = fst (Nearest dflt M p);
              d = Distance p pp;
              m = max (m_MinMoveDistance M) (d - m_AttractionDistance M);
              p1 = vplus p (vscale n m);
              p2 = vscale nw (m_BoundingRadius M)
          in ShouldReset M p1 = (2 * m_BoundingRadius M < Length p1)
           \<and> (2 * m_BoundingRadius M < Length p1 \<longrightarrow>
                RandomStartingPosition M g1 = Some (Inr (p2, g2))
              \<and> walk_body dflt M p g = Some (Inr (Continue p2, g2))
              \<and> Walk_loop dflt M p g = Walk_loop dflt M p2 g2
              \<and> Length p2 = m_BoundingRadius M))
       \<and> (\<forall>q u h. Distance q (fst (Nearest dflt M q)) < m_AttractionDistance M
                  \<and> \<not> Random 0 1 u \<le> m_Stickiness M \<longrightarrow>
             walk_body dflt M q (u # h) =
               (case Lerp (fst (Nearest dflt M q)) q
                       (m_AttractionDistance M + m_MinMoveDistance M) of
                  Inl e \<Rightarrow> Some (Inl e)
                | Inr q1 \<Rightarrow> Some (Inr (Continue q1, h))))"
proof -
  let ?pp = "fst (Nearest dflt M p)"
  let ?d = "Distance p ?pp"
  let ?m = "max (m_MinMoveDistance M) (?d - m_AttractionDistance M)"
  let ?p1 = "vplus p (vscale n ?m)"
  let ?p2 = "vscale nw (m_BoundingRadius M)"
  have push: "\<forall>q u h. Distance q (fst (Nearest dflt M q)) < m_AttractionDistance M
                  \<and> \<not> Random 0 1 u \<le> m_Stickiness M \<longrightarrow>
             walk_body dflt M q (u # h) =
               (case Lerp (fst (Nearest dflt M q)) q
                       (m_AttractionDistance M + m_MinMoveDistance M) of
                  Inl e \<Rightarrow> Some (Inl e)
                | Inr q1 \<Rightarrow> Some (Inr (Continue q1, h)))"
    by (simp add: walk_body_def Let_def ShouldJoin_def)
  have sr: "ShouldReset M ?p1 = (2 * m_BoundingRadius M < Length ?p1)"
    by (simp add: ShouldReset_def mult.commute)
  have rs: "RandomStartingPosition M g1 = Some (Inr (?p2, g2))"
    using assms(5,6) by (simp add: RandomStartingPosition_def Let_def)
  have len: "Length ?p2 = m_BoundingRadius M"
    using assms(1) Normalized_Length [OF assms(6)] by (simp add: Length_vscale)
  have b: "2 * m_BoundingRadius M < Length ?p1 \<longrightarrow>
             walk_body dflt M p g = Some (Inr (Continue ?p2, g2))"
    using assms(2,3,4) rs sr by (simp add: walk_body_def Let_def)
  then have w: "2 * m_BoundingRadius M < Length ?p1 \<longrightarrow> Walk_loop dflt M p g = Walk_loop dflt M ?p2 g2"
    by (simp add: Walk_loop.simps [of dflt M p g])
  show ?thesis
    using sr rs len b w push by (simp add: Let_def)
qed

text \<open>
  The sample \<open>(0, 0, 0)\<close> passes the test \<open>LengthSquared() < 1\<close> of \<open>RandomInUnitSphere\<close>
  and has no direction: a move or a start position drawn from it is \<open>NonFinite\<close>.
\<close>

lemma walk_body_zero_sample:
  assumes "\<not> Distance p (fst (Nearest dflt M p)) < m_AttractionDistance M"
    and "MotionVector M p g = Some (Vector0, g1)"
  shows "walk_body dflt M p g = Some (Inl NonFinite)"
  using assms Normalized_NonFinite_iff [of Vector0]
  by (simp add: walk_body_def Let_def)

lemma RandomStartingPosition_zero_sample:
  assumes "RandomInUnitSphere g = Some (Vector0, g1)"
  shows "RandomStartingPosition M g = Some (Inl NonFinite)"
  using assms Normalized_NonFinite_iff [of Vector0]
  by (simp add: RandomStartingPosition_def Let_def)

section \<open>Seeding\<close>

lemma Add_index_length:
  "length (m_Index (fst (Add f32 p parent st))) = Suc (length (m_Index (fst st)))"
  by (simp add: Add_def Let_def)

lemma seed_loop_count:
  "seed_loop f32 f64 rs (st, c) = (st', c') \<Longrightarrow>
     c' = c + int (length rs)
     \<and> length (m_Index (fst st')) = length (m_Index (fst st)) + length rs"
proof (induction rs arbitrary: st c)
  case Nil
  then show ?case by simp
next
  case (Cons r rs)
  from Cons.prems Cons.IH [of "Add f32 (Vector3 (f64 (X r)) (f64 (Y r)) (f64 (Z r))) (sint (ParentID r)) st" "c + 1"]
  show ?case by (simp add: Add_index_length)
qed

text \<open>
  The seeding of \<open>main\<close> leaves the index non-empty for every input, so that no query of
  a walk runs on an empty index.
\<close>

lemma main_seed_index_nonempty: "m_Index (fst (main_seed f32 f64 stdin)) \<noteq> []"
proof -
  obtain st' c' where s: "seed_loop f32 f64 stdin ((Model0, []), 0) = (st', c')"
    by (cases "seed_loop f32 f64 stdin ((Model0, []), 0)")
  from seed_loop_count [OF s]
  have c: "c' = int (length stdin)" and l: "length (m_Index (fst st')) = length stdin"
    by (simp_all add: Model0_def)
  show ?thesis
  proof (cases "c' = 0")
    case True
    then have "length (m_Index (fst (main_seed f32 f64 stdin))) = Suc (length (m_Index (fst st')))"
      using s by (simp add: main_seed_def Add_index_length)
    then show ?thesis by auto
  next
    case False
    then have "length (m_Index (fst (main_seed f32 f64 stdin))) = length stdin" "stdin \<noteq> []"
      using s c l by (auto simp: main_seed_def)
    then show ?thesis by auto
  qed
qed

text \<open>
  C8. When no seed record is read, \<open>main\<close> calls \<open>Add\<close> once, for the origin with
  parent \<open>-1\<close>: after seeding the index holds exactly one entry, the origin with id 0,
  the output holds exactly one record, with the no-parent sentinel \<open>0xFFFFFFFF\<close> and the
  coordinates of the origin, and the bounding radius is the attraction distance, all
  three by the one call of \<open>Add\<close> every other particle takes.
\<close>

theorem main_seed_empty_input:
  "main_seed f32 f64 [] = Add f32 Vector0 (- 1) (Model0, [])
   \<and> m_Index (fst (main_seed f32 f64 [])) = [(Vector0, 0)]
   \<and> snd (main_seed f32 f64 []) = [\<lparr>ParentID = 0xFFFFFFFF, X = f32 0, Y = f32 0, Z = f32 0\<rparr>]
   \<and> m_BoundingRadius (fst (main_seed f32 f64 [])) = DefaultAttractionDistance"
  by (simp add: main_seed_def Add_def Let_def Model0_def Vector0_def Length_def
      DefaultAttractionDistance_def)

section \<open>Concrete runs\<close>

lemma Vector3_sel [simp]:
  "m_X (Vector3 x y z) = x" "m_Y (Vector3 x y z) = y" "m_Z (Vector3 x y z) = z"
  by (simp_all add: Vector3_def)

lemma Vector3_eq_iff: "Vector3 a b c = Vector3 d e f \<longleftrightarrow> a = d \<and> b = e \<and> c = f"
  by (simp add: Vector3_def)

lemma Vector0_Vector3: "Vector0 = Vector3 0 0 0"
  by (simp add: Vector0_def Vector3_def)

lemma Length_axis: "Length (Vector3 x 0 0) = \<bar>x\<bar>"
  by (simp add: Length_def)

lemma Distance_axis: "Distance (Vector3 x 0 0) (Vector3 a 0 0) = \<bar>x - a\<bar>"
  by (simp add: Distance_def Let_def)

lemma LengthSquared_Vector3: "LengthSquared (Vector3 x y z) = x * x + y * y + z * z"
  by (simp add: LengthSquared_def)

lemma Normalized_axis:
  "Normalized (Vector3 x 0 0) = (if x = 0 then Inl NonFinite else Inr (Vector3 (x / \<bar>x\<bar>) 0 0))"
  by (simp add: Normalized_def Length_axis Let_def)

lemma vops_Vector3:
  "vplus (Vector3 a b c) (Vector3 d e f) = Vector3 (a + d) (b + e) (c + f)"
  "vminus (Vector3 a b c) (Vector3 d e f) = Vector3 (a - d) (b - e) (c - f)"
  "vscale (Vector3 a b c) k = Vector3 (a * k) (b * k) (c * k)"
  by (simp_all add: vplus_def vminus_def vscale_def)

lemmas axis_simps = Vector3_eq_iff Length_axis Distance_axis LengthSquared_Vector3
  Normalized_axis vops_Vector3

lemma world1_value:
  "world1 =
     (\<lparr>m_ParticleSpacing = 1, m_AttractionDistance = 3, m_MinMoveDistance = 1,
        m_Stickiness = 1, m_BoundingRadius = 3, m_Index = [(Vector3 0 0 0, 0)]\<rparr>,
      [\<lparr>ParentID = - 1, X = 0, Y = 0, Z = 0\<rparr>])"
  by (simp add: world1_def main_seed_def Add_def Let_def Model0_def Vector0_Vector3
      Length_axis DefaultParticleSpacing_def DefaultAttractionDistance_def
      DefaultMinMoveDistance_def DefaultStickiness_def)

lemma Nearest_world1: "Nearest dflt (fst world1) q = (Vector3 0 0 0, 0)"
  by (simp add: world1_value Nearest_def)

lemma sample_right: "RandomInUnitSphere (3/4 # 1/2 # 1/2 # g) = Some (Vector3 (1/2) 0 0, g)"
  by (simp add: Random_def LengthSquared_Vector3)

lemma sample_left: "RandomInUnitSphere (1/4 # 1/2 # 1/2 # g) = Some (Vector3 (- (1/2)) 0 0, g)"
  by (simp add: Random_def LengthSquared_Vector3)

lemma sample_zero: "RandomInUnitSphere (1/2 # 1/2 # 1/2 # g) = Some (Vector3 0 0 0, g)"
  by (simp add: Random_def LengthSquared_Vector3)

lemma start_right:
  "RandomStartingPosition M (3/4 # 1/2 # 1/2 # g) =
     Some (Inr (Vector3 (m_BoundingRadius M) 0 0, g))"
  by (simp add: RandomStartingPosition_def sample_right axis_simps del: RandomInUnitSphere.simps)

lemma start_left:
  "RandomStartingPosition M (1/4 # 1/2 # 1/2 # g) =
     Some (Inr (Vector3 (- m_BoundingRadius M) 0 0, g))"
  by (simp add: RandomStartingPosition_def sample_left axis_simps del: RandomInUnitSphere.simps)

lemma pass_move_left:
  "walk_body dflt (fst world1) (Vector3 3 0 0) (1/4 # 1/2 # 1/2 # g) = Some (Inr (Continue (Vector3 2 0 0), g))"
  by (simp add: walk_body_def Nearest_world1 MotionVector_def sample_left ShouldReset_def
       axis_simps Let_def del: RandomInUnitSphere.simps)
     (simp add: world1_value)

lemma pass_join:
  "walk_body dflt (fst world1) (Vector3 2 0 0) (0 # g) =
     Some (Inr (Return (Inr (Vector3 1 0 0), 0), g))"
  by (simp add: walk_body_def Nearest_world1 ShouldJoin_def PlaceParticle_def Lerp_def
       Random_def axis_simps Let_def)
     (simp add: world1_value)

lemma world1_params:
  "m_ParticleSpacing (fst world1) = 1" "m_AttractionDistance (fst world1) = 3"
  "m_MinMoveDistance (fst world1) = 1" "m_Stickiness (fst world1) = 1"
  "m_BoundingRadius (fst world1) = 3" "m_Index (fst world1) = [(Vector3 0 0 0, 0)]"
  by (simp_all add: world1_value)

lemma Walk_draws_join:
  "Walk dflt (fst world1) draws_join = Some (Inr ((Inr (Vector3 1 0 0), 0), []))"
  by (simp add: Walk_def draws_join_def start_right world1_params
      Walk_loop.simps [of _ _ "Vector3 3 0 0"] pass_move_left
      Walk_loop.simps [of _ _ "Vector3 2 0 0"] pass_join)

theorem PlaceParticle_spacing_witness:
  "0 \<le> m_ParticleSpacing (fst world1)
   \<and> ordinary_separation (Vector3 2 0 0) (Vector3 0 0 0)
   \<and> PlaceParticle (fst world1) (Vector3 2 0 0) (Vector3 0 0 0) = Inr (Vector3 1 0 0)
   \<and> Distance (Vector3 1 0 0) (Vector3 0 0 0) = m_ParticleSpacing (fst world1)
   \<and> Walk (Vector0, 0) (fst world1) draws_join = Some (Inr ((Inr (Vector3 1 0 0), 0), []))
   \<and> (\<exists>q pp. Nearest (Vector0, 0) (fst world1) q = (pp, 0)
            \<and> (pp, 0) \<in> set (m_Index (fst world1))
            \<and> Distance q pp < m_AttractionDistance (fst world1)
            \<and> Inr (Vector3 1 0 0) = PlaceParticle (fst world1) q pp)"
proof -
  have h: "0 \<le> m_ParticleSpacing (fst world1)" by (simp add: world1_params)
  have o: "ordinary_separation (Vector3 2 0 0) (Vector3 0 0 0)"
    by (simp add: ordinary_separation_def axis_simps)
  have idx: "m_Index (fst world1) \<noteq> []" by (simp add: world1_params)
  note t = PlaceParticle_spacing [OF h, where Q = "Vector3 2 0 0" and P = "Vector3 0 0 0"
      and dflt = "(Vector0, 0)" and g = draws_join and r = "Inr (Vector3 1 0 0)" and pid = 0
      and g' = "[]"]
  have pp: "PlaceParticle (fst world1) (Vector3 2 0 0) (Vector3 0 0 0) = Inr (Vector3 1 0 0)"
    using t o by (simp add: axis_simps world1_params)
  have d: "Distance (Vector3 1 0 0) (Vector3 0 0 0) = m_ParticleSpacing (fst world1)"
    using t o pp by (simp add: axis_simps world1_params)
  have ex: "\<exists>q pp. Nearest (Vector0, 0) (fst world1) q = (pp, 0)
            \<and> (pp, 0) \<in> set (m_Index (fst world1))
            \<and> Distance q pp < m_AttractionDistance (fst world1)
            \<and> Inr (Vector3 1 0 0) = PlaceParticle (fst world1) q pp"
    using t Walk_draws_join [of "(Vector0, 0)"] idx by blast
  show ?thesis using h o pp d ex Walk_draws_join [of "(Vector0, 0)"] by simp
qed

lemma model_land_params:
  "m_ParticleSpacing model_land = 1" "m_AttractionDistance model_land = 3"
  "m_MinMoveDistance model_land = 3" "m_Stickiness model_land = 1"
  "m_BoundingRadius model_land = 3" "m_Index model_land = [(Vector3 0 0 0, 0)]"
  by (simp_all add: model_land_def world1_value)

lemma Nearest_model_land: "Nearest dflt model_land q = (Vector3 0 0 0, 0)"
  by (simp add: Nearest_def model_land_params)

lemma land_on_seed:
  "walk_body dflt model_land (Vector3 3 0 0) (1/4 # 1/2 # 1/2 # g) =
     Some (Inr (Continue (Vector3 0 0 0), g))"
  by (simp add: walk_body_def Nearest_model_land MotionVector_def sample_left ShouldReset_def
       model_land_params axis_simps Let_def del: RandomInUnitSphere.simps)

lemma join_on_seed:
  "walk_body dflt model_land (Vector3 0 0 0) (0 # g) =
     Some (Inr (Return (Inl NonFinite, 0), g))"
  by (simp add: walk_body_def Nearest_model_land ShouldJoin_def PlaceParticle_def Lerp_def
       Random_def model_land_params axis_simps Let_def)

text \<open>
  After \<open>SetMinMoveDistance(3)\<close>, with the single seed at the origin: the walk starts at
  \<open>(3, 0, 0)\<close>, at distance 3 from the seed, and moves by \<open>max(3, 3 - 3) = 3\<close> towards it,
  onto the seed. The next pass is within the attraction distance and joins:
  \<open>PlaceParticle\<close> is called with the walker at its parent's position, and \<open>Walk\<close> returns
  the pair of a position that is not finite and the parent's id 0. That position is at no
  distance from the parent, let alone at the particle spacing.
\<close>

theorem Walk_returns_NonFinite_counterexample:
  "Walk (Vector0, 0) model_land draws_join = Some (Inr ((Inl NonFinite, 0), []))
   \<and> Nearest (Vector0, 0) model_land (Vector3 0 0 0) = (Vector3 0 0 0, 0)
   \<and> walk_body (Vector0, 0) model_land (Vector3 0 0 0) [0] =
       Some (Inr (Return (Inl NonFinite, 0), []))
   \<and> PlaceParticle model_land (Vector3 0 0 0) (Vector3 0 0 0) = Inl NonFinite
   \<and> 0 < m_ParticleSpacing model_land"
proof -
  have w: "Walk (Vector0, 0) model_land draws_join = Some (Inr ((Inl NonFinite, 0), []))"
    by (simp add: Walk_def draws_join_def start_right model_land_params
        Walk_loop.simps [of _ _ "Vector3 3 0 0"] land_on_seed
        Walk_loop.simps [of _ _ "Vector3 0 0 0"] join_on_seed)
  show ?thesis
    using w by (simp add: Nearest_model_land join_on_seed PlaceParticle_coincident
        model_land_params)
qed

lemma model_push_params:
  "m_ParticleSpacing model_push = 1" "m_AttractionDistance model_push = 3"
  "m_MinMoveDistance model_push = 4" "m_Stickiness model_push = 1/2"
  "m_BoundingRadius model_push = 3" "m_Index model_push = [(Vector3 0 0 0, 0)]"
  by (simp_all add: model_push_def world1_value)

lemma Nearest_model_push: "Nearest dflt model_push q = (Vector3 0 0 0, 0)"
  by (simp add: Nearest_def model_push_params)

lemma push_pass1:
  "walk_body dflt model_push (Vector3 3 0 0) (1/4 # 1/2 # 1/2 # g) =
     Some (Inr (Continue (Vector3 (- 1) 0 0), g))"
  by (simp add: walk_body_def Nearest_model_push MotionVector_def sample_left ShouldReset_def
       model_push_params axis_simps Let_def del: RandomInUnitSphere.simps)

lemma push_pass2:
  "walk_body dflt model_push (Vector3 (- 1) 0 0) (3/4 # g) =
     Some (Inr (Continue (Vector3 (- 7) 0 0), g))"
  by (simp add: walk_body_def Nearest_model_push ShouldJoin_def Lerp_def Random_def
       model_push_params axis_simps Let_def)

lemma push_pass3:
  "walk_body dflt model_push (Vector3 (- 7) 0 0) (3/4 # 1/2 # 1/2 # g) =
     Some (Inr (Continue (Vector3 (- 3) 0 0), g))"
  by (simp add: walk_body_def Nearest_model_push MotionVector_def sample_right ShouldReset_def
       model_push_params axis_simps Let_def del: RandomInUnitSphere.simps)

text \<open>
  After \<open>SetMinMoveDistance(4)\<close> and \<open>SetStickiness(0.5)\<close>, with the single seed at the
  origin and the bounding radius 3: the walk starts at \<open>(3, 0, 0)\<close> and moves by 4 to
  \<open>(-1, 0, 0)\<close>; there the join is rejected and the walker is pushed to \<open>(-7, 0, 0)\<close>, at
  distance 7 from the origin, more than twice the bounding radius. The \<open>continue\<close> passes
  over \<open>ShouldReset\<close>: the next pass queries the index from \<open>(-7, 0, 0)\<close> and moves on
  from there.
\<close>

theorem push_away_not_reset_counterexample:
  "RandomStartingPosition model_push [3/4, 1/2, 1/2] = Some (Inr (Vector3 3 0 0, []))
   \<and> walk_body (Vector0, 0) model_push (Vector3 3 0 0) [1/4, 1/2, 1/2] =
       Some (Inr (Continue (Vector3 (- 1) 0 0), []))
   \<and> walk_body (Vector0, 0) model_push (Vector3 (- 1) 0 0) [3/4] =
       Some (Inr (Continue (Vector3 (- 7) 0 0), []))
   \<and> 2 * m_BoundingRadius model_push < Length (Vector3 (- 7) 0 0)
   \<and> Length (Vector3 (- 7) 0 0) \<noteq> m_BoundingRadius model_push
   \<and> Walk (Vector0, 0) model_push (draws_push @ [3/4, 1/2, 1/2]) =
       Walk_loop (Vector0, 0) model_push (Vector3 (- 7) 0 0) [3/4, 1/2, 1/2]
   \<and> walk_body (Vector0, 0) model_push (Vector3 (- 7) 0 0) [3/4, 1/2, 1/2] =
       Some (Inr (Continue (Vector3 (- 3) 0 0), []))"
proof -
  have w: "Walk (Vector0, 0) model_push (draws_push @ [3/4, 1/2, 1/2]) =
       Walk_loop (Vector0, 0) model_push (Vector3 (- 7) 0 0) [3/4, 1/2, 1/2]"
    by (simp add: Walk_def draws_push_def start_right model_push_params
        Walk_loop.simps [of _ _ "Vector3 3 0 0"] push_pass1
        Walk_loop.simps [of _ _ "Vector3 (- 1) 0 0"] push_pass2)
  show ?thesis
    using w
    by (simp add: start_right push_pass1 push_pass2 push_pass3 model_push_params axis_simps)
qed

lemma model_half_params:
  "m_ParticleSpacing model_half = 1" "m_AttractionDistance model_half = 3"
  "m_MinMoveDistance model_half = 1" "m_Stickiness model_half = 1/2"
  "m_BoundingRadius model_half = 3" "m_Index model_half = [(Vector3 0 0 0, 0)]"
  by (simp_all add: model_half_def world1_value)

lemma Nearest_model_half: "Nearest dflt model_half q = (Vector3 0 0 0, 0)"
  by (simp add: Nearest_def model_half_params)

theorem Walk_push_away_witness:
  "Distance (Vector3 2 0 0) (fst (Nearest (Vector0, 0) model_half (Vector3 2 0 0))) < m_AttractionDistance model_half
   \<and> Vector3 2 0 0 \<noteq> fst (Nearest (Vector0, 0) model_half (Vector3 2 0 0))
   \<and> \<not> Random 0 1 (3/4) \<le> m_Stickiness model_half
   \<and> 0 \<le> m_MinMoveDistance model_half
   \<and> walk_body (Vector0, 0) model_half (Vector3 2 0 0) [3/4] = Some (Inr (Continue (Vector3 4 0 0), []))
   \<and> Distance (Vector3 4 0 0) (Vector3 0 0 0) = 4"
proof -
  have h1: "Distance (Vector3 2 0 0) (fst (Nearest (Vector0, 0) model_half (Vector3 2 0 0)))
              < m_AttractionDistance model_half"
    by (simp add: Nearest_model_half model_half_params axis_simps)
  have h2: "Vector3 2 0 0 \<noteq> fst (Nearest (Vector0, 0) model_half (Vector3 2 0 0))"
    by (simp add: Nearest_model_half axis_simps)
  have h3: "\<not> Random 0 1 (3/4) \<le> m_Stickiness model_half"
    by (simp add: Random_def model_half_params)
  have h4: "0 \<le> m_MinMoveDistance model_half"
    by (simp add: model_half_params)
  show ?thesis
    using Walk_push_away [OF h1 h2 h3 h4, of "[]"] h1 h2 h3 h4
    by (simp add: Let_def Nearest_model_half model_half_params axis_simps)
qed

theorem Walk_random_move_witness:
  "\<not> Distance (Vector3 5 0 0) (fst (Nearest (Vector0, 0) (fst world1) (Vector3 5 0 0)))
        < m_AttractionDistance (fst world1)
   \<and> MotionVector (fst world1) (Vector3 5 0 0) [1/4, 1/2, 1/2] = Some (Vector3 (- (1/2)) 0 0, [])
   \<and> Normalized (Vector3 (- (1/2)) 0 0) = Inr (Vector3 (- 1) 0 0)
   \<and> Length (Vector3 (- 1) 0 0) = 1
   \<and> Distance (Vector3 3 0 0) (Vector3 5 0 0) = 2
   \<and> walk_body (Vector0, 0) (fst world1) (Vector3 5 0 0) [1/4, 1/2, 1/2] = Some (Inr (Continue (Vector3 3 0 0), []))
   \<and> m_AttractionDistance (fst world1) \<le> Distance (Vector3 3 0 0) (Vector3 0 0 0)"
proof -
  have h1: "\<not> Distance (Vector3 5 0 0) (fst (Nearest (Vector0, 0) (fst world1) (Vector3 5 0 0)))
        < m_AttractionDistance (fst world1)"
    by (simp add: Nearest_world1 world1_params axis_simps)
  have h2: "MotionVector (fst world1) (Vector3 5 0 0) [1/4, 1/2, 1/2] = Some (Vector3 (- (1/2)) 0 0, [])"
    by (simp add: MotionVector_def sample_left del: RandomInUnitSphere.simps)
  have h3: "Normalized (Vector3 (- (1/2)) 0 0) = Inr (Vector3 (- 1) 0 0)"
    by (simp add: axis_simps)
  have nr: "\<not> ShouldReset (fst world1) (Vector3 3 0 0)"
    by (simp add: ShouldReset_def world1_params axis_simps)
  have n1: "Length (Vector3 (- 1) 0 0) = 1" by (simp add: axis_simps)
  show ?thesis
    using Walk_random_move [OF h1 h2 h3] h1 h2 h3 nr n1
    by (simp add: Let_def Nearest_world1 world1_params axis_simps del: RandomInUnitSphere.simps)
qed

theorem Walk_reset_witness:
  "0 \<le> m_BoundingRadius (fst world1)
   \<and> \<not> Distance (Vector3 5 0 0) (fst (Nearest (Vector0, 0) (fst world1) (Vector3 5 0 0)))
        < m_AttractionDistance (fst world1)
   \<and> MotionVector (fst world1) (Vector3 5 0 0) [3/4, 1/2, 1/2, 1/4, 1/2, 1/2]
       = Some (Vector3 (1/2) 0 0, [1/4, 1/2, 1/2])
   \<and> Normalized (Vector3 (1/2) 0 0) = Inr (Vector3 1 0 0)
   \<and> RandomInUnitSphere [1/4, 1/2, 1/2] = Some (Vector3 (- (1/2)) 0 0, [])
   \<and> Normalized (Vector3 (- (1/2)) 0 0) = Inr (Vector3 (- 1) 0 0)
   \<and> 2 * m_BoundingRadius (fst world1) < Length (Vector3 7 0 0)
   \<and> walk_body (Vector0, 0) (fst world1) (Vector3 5 0 0) [3/4, 1/2, 1/2, 1/4, 1/2, 1/2]
       = Some (Inr (Continue (Vector3 (- 3) 0 0), []))
   \<and> Length (Vector3 (- 3) 0 0) = m_BoundingRadius (fst world1)"
proof -
  have h0: "0 \<le> m_BoundingRadius (fst world1)" by (simp add: world1_params)
  have h1: "\<not> Distance (Vector3 5 0 0) (fst (Nearest (Vector0, 0) (fst world1) (Vector3 5 0 0)))
        < m_AttractionDistance (fst world1)"
    by (simp add: Nearest_world1 world1_params axis_simps)
  have h2: "MotionVector (fst world1) (Vector3 5 0 0) [3/4, 1/2, 1/2, 1/4, 1/2, 1/2]
       = Some (Vector3 (1/2) 0 0, [1/4, 1/2, 1/2])"
    by (simp add: MotionVector_def sample_right del: RandomInUnitSphere.simps)
  have h3: "Normalized (Vector3 (1/2) 0 0) = Inr (Vector3 1 0 0)"
    by (simp add: axis_simps)
  have h4: "RandomInUnitSphere [1/4, 1/2, 1/2] = Some (Vector3 (- (1/2)) 0 0, [])"
    by (rule sample_left)
  have h5: "Normalized (Vector3 (- (1/2)) 0 0) = Inr (Vector3 (- 1) 0 0)"
    by (simp add: axis_simps)
  have far: "2 * m_BoundingRadius (fst world1) < Length (Vector3 7 0 0)"
    by (simp add: world1_params axis_simps)
  show ?thesis
    using Walk_reset [OF h0 h1 h2 h3 h4 h5] h0 h1 h2 h3 h4 h5 far
    by (simp add: Let_def Nearest_world1 world1_params axis_simps del: RandomInUnitSphere.simps)
qed

lemma pass_move_right:
  "walk_body dflt (fst world1) (Vector3 (- 3) 0 0) (3/4 # 1/2 # 1/2 # g) =
     Some (Inr (Continue (Vector3 (- 2) 0 0), g))"
  by (simp add: walk_body_def Nearest_world1 MotionVector_def sample_right ShouldReset_def
       axis_simps Let_def del: RandomInUnitSphere.simps)
     (simp add: world1_value)

lemma pass_join_left:
  "walk_body dflt (fst world1) (Vector3 (- 2) 0 0) (0 # g) =
     Some (Inr (Return (Inr (Vector3 (- 1) 0 0), 0), g))"
  by (simp add: walk_body_def Nearest_world1 ShouldJoin_def PlaceParticle_def Lerp_def
       Random_def axis_simps Let_def)
     (simp add: world1_value)

lemma Walk_draws_join_left:
  "Walk dflt (fst world1) draws_join_left = Some (Inr ((Inr (Vector3 (- 1) 0 0), 0), []))"
  by (simp add: Walk_def draws_join_left_def start_left world1_params
      Walk_loop.simps [of _ _ "Vector3 (- 3) 0 0"] pass_move_right
      Walk_loop.simps [of _ _ "Vector3 (- 2) 0 0"] pass_join_left)

section \<open>The batch of a round\<close>

lemma filter_update_same:
  "i < length ws \<Longrightarrow> \<not> P (ws ! i) \<Longrightarrow> \<not> P x \<Longrightarrow>
     length (filter P (ws[i := x])) = length (filter P ws)"
  by (induction ws arbitrary: i) (auto simp: nth_Cons split: nat.splits)

lemma filter_update_new:
  "i < length ws \<Longrightarrow> \<not> P (ws ! i) \<Longrightarrow> P x \<Longrightarrow>
     length (filter P (ws[i := x])) = Suc (length (filter P ws))"
  by (induction ws arbitrary: i) (auto simp: nth_Cons split: nat.splits)

lemma at_barrier2_le: "at_barrier2 ws \<le> length ws"
  by (simp add: at_barrier2_def)

lemma at_barrier2_all: "all_at AtBarrier2 ws \<Longrightarrow> at_barrier2 ws = length ws"
  by (induction ws) (auto simp: all_at_def at_barrier2_def)

lemma at_barrier2_none: "all_at AtBarrier1 ws \<Longrightarrow> at_barrier2 ws = 0"
  by (induction ws) (auto simp: all_at_def at_barrier2_def)

lemma at_barrier2_map: "w \<noteq> AtBarrier2 \<Longrightarrow> at_barrier2 (map (\<lambda>x. w) ws) = 0"
  by (induction ws) (auto simp: at_barrier2_def)

lemma batch_done_iff:
  "0 < batchSize \<Longrightarrow> batchSize < 2 ^ 31 \<Longrightarrow> batch_done n batchSize \<longleftrightarrow> batchSize \<le> int n"
  by (simp add: batch_done_def)

lemma round_inv_init: "0 < batchSize \<Longrightarrow> round_inv numThreads batchSize (RunForever_init numThreads st)"
  by (simp add: round_inv_def RunForever_init_def at_barrier2_def)

lemma round_inv_step:
  assumes B: "0 < batchSize" "batchSize < 2 ^ 31"
    and inv: "round_inv numThreads batchSize s"
    and step: "RunForever_step f32 batchSize s s'"
  shows "round_inv numThreads batchSize s'"
  using step
proof cases
  case barrier1
  then show ?thesis
    using inv at_barrier2_none [of "workers s"]
    by (simp add: round_inv_def at_barrier2_map)
next
  case (walk i item)
  then have "at_barrier2 ((workers s)[i := Holding item]) = at_barrier2 (workers s)"
    by (simp add: at_barrier2_def filter_update_same)
  with walk inv show ?thesis by (simp add: round_inv_def)
next
  case (push_back i item)
  show ?thesis
  proof (cases "batch_done (length (items s @ [item])) batchSize")
    case True
    then have d: "batchSize \<le> int (length (items s)) + 1"
      using B by (simp add: batch_done_iff)
    have c: "at_barrier2 ((workers s)[i := AtBarrier2]) = Suc (at_barrier2 (workers s))"
      using push_back by (simp add: at_barrier2_def filter_update_new)
    show ?thesis
      using push_back inv True c d by (auto simp: round_inv_def split: if_splits)
  next
    case False
    then have d: "int (length (items s)) + 1 < batchSize"
      using B by (simp add: batch_done_iff)
    have c: "at_barrier2 ((workers s)[i := Walking]) = at_barrier2 (workers s)"
      using push_back by (simp add: at_barrier2_def filter_update_same)
    show ?thesis
      using push_back inv False c d by (auto simp: round_inv_def split: if_splits)
  qed
next
  case barrier2
  then show ?thesis
    using inv B by (simp add: round_inv_def at_barrier2_map)
qed

lemma round_inv_reachable:
  assumes B: "0 < batchSize" "batchSize < 2 ^ 31"
    and r: "RunForever_reachable f32 numThreads batchSize st s"
  shows "round_inv numThreads batchSize s"
  using r unfolding RunForever_reachable_def
proof (induction rule: rtranclp_induct)
  case base
  show ?case using B by (simp add: round_inv_init)
next
  case (step y z)
  then show ?case using B round_inv_step by blast
qed

text \<open>With the constants of \<open>main\<close>, 16 workers and a batch size of 128.\<close>

lemma batch_of_main:
  assumes "RunForever_reachable f32 NumThreads BatchSize st s"
    and "all_at AtBarrier2 (workers s)"
  shows "length (items s) = 143"
proof -
  have "round_inv NumThreads BatchSize s"
    using assms(1) by (intro round_inv_reachable) (simp_all add: BatchSize_def)
  then show ?thesis
    using at_barrier2_all [OF assms(2)]
    by (auto simp: round_inv_def NumThreads_def BatchSize_def split: if_splits)
qed

text \<open>
  C2 (as the code has it). For \<open>0 < batchSize\<close>: a worker tests the size of the batch
  only after its own \<open>push_back\<close>, so every worker appends at least once in a round, and
  a worker that is still inside \<open>Walk()\<close> when the batch reaches \<open>batchSize\<close> appends its
  item all the same. Until the first worker is done the batch holds fewer than
  \<open>batchSize\<close> items; with \<open>k > 0\<close> workers done it holds exactly \<open>batchSize + k - 1\<close>.
  So the batch never holds more than \<open>batchSize + numThreads - 1\<close> items, and the batch
  handed to the commit phase (all workers at the second barrier) holds exactly that many.
\<close>

theorem batch_size_bound:
  assumes "0 < batchSize" and "batchSize < 2 ^ 31"
    and "RunForever_reachable f32 numThreads batchSize st s"
  shows "int (length (items s)) \<le> batchSize + int (nat numThreads) - 1
       \<and> (at_barrier2 (workers s) = 0 \<longrightarrow> int (length (items s)) < batchSize)
       \<and> (0 < at_barrier2 (workers s) \<longrightarrow>
            int (length (items s)) = batchSize + int (at_barrier2 (workers s)) - 1)
       \<and> (0 < numThreads \<and> all_at AtBarrier2 (workers s) \<longrightarrow>
            int (length (items s)) = batchSize + numThreads - 1)"
proof -
  have inv: "round_inv numThreads batchSize s"
    using assms by (rule round_inv_reachable)
  have le: "at_barrier2 (workers s) \<le> nat numThreads"
    using inv at_barrier2_le [of "workers s"] by (simp add: round_inv_def)
  have 1: "int (length (items s)) \<le> batchSize + int (nat numThreads) - 1"
    using inv le by (auto simp: round_inv_def split: if_splits)
  have 2: "at_barrier2 (workers s) = 0 \<longrightarrow> int (length (items s)) < batchSize"
    using inv by (simp add: round_inv_def)
  have 3: "0 < at_barrier2 (workers s) \<longrightarrow>
            int (length (items s)) = batchSize + int (at_barrier2 (workers s)) - 1"
    using inv by (simp add: round_inv_def)
  have 4: "0 < numThreads \<and> all_at AtBarrier2 (workers s) \<longrightarrow>
            int (length (items s)) = batchSize + numThreads - 1"
    using inv at_barrier2_all [of "workers s"] by (auto simp: round_inv_def split: if_splits)
  show ?thesis using 1 2 3 4 by blast
qed

lemma round_end_reachable: "RunForever_reachable (\<lambda>x. x) 2 1 world1 round_end"
proof -
  let ?step = "RunForever_step (\<lambda>x::real. x) 1"
  let ?s0 = "\<lparr>world = world1, items = [], workers = [AtBarrier1, AtBarrier1]\<rparr>"
  let ?s1 = "\<lparr>world = world1, items = [], workers = [Walking, Walking]\<rparr>"
  let ?s2 = "\<lparr>world = world1, items = [], workers = [Holding item_a, Walking]\<rparr>"
  let ?s3 = "\<lparr>world = world1, items = [], workers = [Holding item_a, Holding item_b]\<rparr>"
  let ?s4 = "\<lparr>world = world1, items = [item_a], workers = [AtBarrier2, Holding item_b]\<rparr>"
  have i: "RunForever_init 2 world1 = ?s0"
    by (simp add: RunForever_init_def numeral_2_eq_2)
  have 1: "?step ?s0 ?s1"
    using RunForever_step.barrier1 [of ?s0 "\<lambda>x. x" 1] by (simp add: all_at_def)
  have 2: "?step ?s1 ?s2"
    using RunForever_step.walk [of 0 ?s1 "\<lambda>x. x" 1 item_a] by simp
  have 3: "?step ?s2 ?s3"
    using RunForever_step.walk [of 1 ?s2 "\<lambda>x. x" 1 item_b] by simp
  have 4: "?step ?s3 ?s4"
    using RunForever_step.push_back [of 0 ?s3 item_a "\<lambda>x. x" 1] by (simp add: batch_done_def)
  have 5: "?step ?s4 round_end"
    using RunForever_step.push_back [of 1 ?s4 item_b "\<lambda>x. x" 1]
    by (simp add: batch_done_def round_end_def)
  have "?step\<^sup>*\<^sup>* ?s0 round_end"
    using 1 2 3 4 5 by (meson rtranclp.rtrancl_into_rtrancl rtranclp.rtrancl_refl)
  then show ?thesis by (simp add: RunForever_reachable_def i)
qed

theorem batch_size_bound_witness:
  "(0::int) < 1 \<and> (1::int) < 2 ^ 31
   \<and> RunForever_reachable (\<lambda>x. x) 2 1 world1 round_end
   \<and> all_at AtBarrier2 (workers round_end)
   \<and> int (length (items round_end)) = 1 + 2 - 1"
proof -
  have a: "all_at AtBarrier2 (workers round_end)"
    by (simp add: round_end_def all_at_def)
  show ?thesis
    using batch_size_bound [of 1 "\<lambda>x. x" 2 world1 round_end] round_end_reachable a
    by simp
qed

text \<open>
  With two workers and \<open>batchSize = 1\<close> the batch handed to the commit phase holds two
  items, each the result of a walk on the seeded model: both workers were inside
  \<open>Walk()\<close> when the round began, and each appends what it returns.
\<close>

theorem batch_exceeds_batchSize_counterexample:
  "Walk (Vector0, 0) (fst world1) draws_join = Some (Inr ((Inr (fst item_a), snd item_a), []))
   \<and> Walk (Vector0, 0) (fst world1) draws_join_left =
       Some (Inr ((Inr (fst item_b), snd item_b), []))
   \<and> RunForever_reachable (\<lambda>x. x) 2 1 world1 round_end
   \<and> all_at AtBarrier2 (workers round_end)
   \<and> length (items round_end) = 2
   \<and> \<not> int (length (items round_end)) \<le> 1"
  using round_end_reachable Walk_draws_join Walk_draws_join_left
  by (simp add: round_end_def all_at_def item_a_def item_b_def)

end
